theory Spec2Isabelle
  imports Main "HOL-Library.Word"
begin

section \<open>Read-only access to a git directory: packages gitdir and seekable2\<close>

text \<open>
  A shallow embedding of \<^verbatim>\<open>storage/seekable2/internal/gitdir/gitdir.go\<close>, which holds
  the package \<^verbatim>\<open>gitdir\<close> (the type GitDir with New, Refs, Capabilities,
  addSymRefCapability and Objectfile) followed by the package \<^verbatim>\<open>seekable2\<close>
  (the type ObjectStorage with New, Set, Get, Iter and Head, and the helpers readObject,
  readZip and inflate).

  Go returns a value together with an error; the model keeps the pair, with
  \<open>None\<close> for a nil error. A method with a pointer receiver that assigns to its
  receiver returns the updated receiver. A panic is a result of its own. The calls of
  \<^verbatim>\<open>fmt.Println\<close> only write diagnostics to the standard output and are left out.
\<close>

subsection \<open>Errors\<close>

text \<open>
  The sentinel errors of the package gitdir and of \<^verbatim>\<open>compress/zlib\<close>, the errors of the
  filesystem (\<open>ErrNotExist\<close> stands for every error on which \<^verbatim>\<open>os.IsNotExist\<close>
  holds, \<open>IOError\<close> for every other one, each with its message), and the errors built
  by \<^verbatim>\<open>fmt.Errorf\<close>. An \<open>Errorf\<close> keeps the pieces of its message in order: the literal
  text of the format, an operand of the verb \<^verbatim>\<open>%s\<close> that is a string (\<open>Str\<close>) or an error
  (\<open>Cause\<close>), and an operand of the verb \<^verbatim>\<open>%q\<close> (\<open>Quoted\<close>).
\<close>

datatype error =
    ErrNotFound
  | ErrIdxNotFound
  | ErrPackfileNotFound
  | ErrHeader
  | ErrChecksum
  | ErrDictionary
  | ErrNotExist string
  | IOError string
  | Errorf "piece list"
and piece =
    Lit string
  | Str string
  | Quoted string
  | Cause error

datatype panic = PanicError error | NilDereference | SliceBounds

datatype 'a outcome = Return 'a | Panic panic

definition IsNotExist :: "error \<Rightarrow> bool" where
  "IsNotExist err = (case err of ErrNotExist msg \<Rightarrow> True | _ \<Rightarrow> False)"

subsection \<open>Strings\<close>

text \<open>
  A Go string is a sequence of bytes. \<open>HasPrefix\<close> and \<open>TrimPrefix\<close> are the
  functions of the package strings.
\<close>

definition HasPrefix :: "string \<Rightarrow> string \<Rightarrow> bool" where
  "HasPrefix s pre = (length pre \<le> length s \<and> take (length pre) s = pre)"

definition TrimPrefix :: "string \<Rightarrow> string \<Rightarrow> string" where
  "TrimPrefix s pre = (if HasPrefix s pre then drop (length pre) s else s)"

text \<open>
  \<^verbatim>\<open>strings.TrimSpace\<close> removes the white space of Unicode at both ends of the string,
  which it reads as UTF-8. A character of white space is one of U+0009 to U+000D,
  U+0020, U+0085, U+00A0, U+1680, U+2000 to U+200A, U+2028, U+2029, U+202F, U+205F and
  U+3000 (\<^verbatim>\<open>unicode.IsSpace\<close>); \<open>spaceEncodings\<close> lists their encodings in UTF-8.
  The string starts with a character of white space exactly when it starts with one of
  these encodings, and ends with one exactly when it ends with one of them: bytes that
  are not valid UTF-8 are read as U+FFFD, one byte at a time, which is not white space.
  \<open>stripAll\<close> removes the encodings at the start of a string one after the other;
  \<open>TrimSpace\<close> does so at the start and then, on the reversed string, at the end.
\<close>

definition spaceEncodings :: "string list" where
  "spaceEncodings =
     [[CHR 0x09], [CHR 0x0A], [CHR 0x0B], [CHR 0x0C], [CHR 0x0D], [CHR 0x20],
      [CHR 0xC2, CHR 0x85], [CHR 0xC2, CHR 0xA0],
      [CHR 0xE1, CHR 0x9A, CHR 0x80],
      [CHR 0xE2, CHR 0x80, CHR 0x80], [CHR 0xE2, CHR 0x80, CHR 0x81],
      [CHR 0xE2, CHR 0x80, CHR 0x82], [CHR 0xE2, CHR 0x80, CHR 0x83],
      [CHR 0xE2, CHR 0x80, CHR 0x84], [CHR 0xE2, CHR 0x80, CHR 0x85],
      [CHR 0xE2, CHR 0x80, CHR 0x86], [CHR 0xE2, CHR 0x80, CHR 0x87],
      [CHR 0xE2, CHR 0x80, CHR 0x88], [CHR 0xE2, CHR 0x80, CHR 0x89],
      [CHR 0xE2, CHR 0x80, CHR 0x8A],
      [CHR 0xE2, CHR 0x80, CHR 0xA8], [CHR 0xE2, CHR 0x80, CHR 0xA9],
      [CHR 0xE2, CHR 0x80, CHR 0xAF],
      [CHR 0xE2, CHR 0x81, CHR 0x9F],
      [CHR 0xE3, CHR 0x80, CHR 0x80]]"

function stripAll :: "string list \<Rightarrow> string \<Rightarrow> string" where
  "stripAll encodings [] = []"
| "stripAll encodings (c # s) =
     (case find (\<lambda>e. e \<noteq> [] \<and> HasPrefix (c # s) e) encodings of
        None \<Rightarrow> c # s
      | Some e \<Rightarrow> stripAll encodings (drop (length e) (c # s)))"
  by pat_completeness auto
termination
proof (relation "measure (\<lambda>(encodings, s). length s)")
  show "wf (measure (\<lambda>(encodings, s). length s))"
    by simp
next
  fix encodings :: "string list" and c :: char and s e :: string
  assume "find (\<lambda>e. e \<noteq> [] \<and> HasPrefix (c # s) e) encodings = Some e"
  then have "e \<noteq> []"
    by (auto simp add: find_Some_iff)
  then show "((encodings, drop (length e) (c # s)), (encodings, c # s))
               \<in> measure (\<lambda>(encodings, s). length s)"
    by (cases e) simp_all
qed

definition TrimSpace :: "string \<Rightarrow> string" where
  "TrimSpace s =
     rev (stripAll (map rev spaceEncodings) (rev (stripAll spaceEncodings s)))"

definition hexdigit :: "nat \<Rightarrow> char" where
  "hexdigit n = ''0123456789abcdef'' ! (n mod 16)"

fun hexpad :: "nat \<Rightarrow> nat \<Rightarrow> string" where
  "hexpad 0 n = []"
| "hexpad (Suc k) n = hexpad k (n div 16) @ [hexdigit (n mod 16)]"

text \<open>
  The verb \<^verbatim>\<open>%q\<close> writes its operand as \<^verbatim>\<open>strconv.Quote\<close> does. A string of
  printable characters of ASCII (U+0020 to U+007E) with no double quote and no
  backslash is written as it is, between double quotes. On every other string
  \<^verbatim>\<open>strconv.Quote\<close> writes escapes, which depend on the tables of Unicode of the Go
  library; what it returns for these strings is a parameter of the model.
\<close>

definition plainText :: "string \<Rightarrow> bool" where
  "plainText s =
     list_all (\<lambda>c. 0x20 \<le> (of_char c :: nat) \<and> (of_char c :: nat) < 0x7F \<and>
                    c \<noteq> CHR 0x22 \<and> c \<noteq> CHR 0x5C) s"

type_synonym escapes = "string \<Rightarrow> string"

definition goQuote :: "escapes \<Rightarrow> string \<Rightarrow> string" where
  "goQuote escaped s = (if plainText s then [CHR 0x22] @ s @ [CHR 0x22] else escaped s)"

text \<open>
  The method \<^verbatim>\<open>Error()\<close>: the message of an error, given what \<^verbatim>\<open>strconv.Quote\<close>
  returns for the strings that need an escape.
\<close>

primrec Error :: "escapes \<Rightarrow> error \<Rightarrow> string"
    and piece_string :: "escapes \<Rightarrow> piece \<Rightarrow> string" where
  "Error q ErrNotFound = ''path not found''"
| "Error q ErrIdxNotFound = ''idx file not found''"
| "Error q ErrPackfileNotFound = ''packfile not found''"
| "Error q ErrHeader = ''zlib: invalid header''"
| "Error q ErrChecksum = ''zlib: invalid checksum''"
| "Error q ErrDictionary = ''zlib: invalid dictionary''"
| "Error q (ErrNotExist msg) = msg"
| "Error q (IOError msg) = msg"
| "Error q (Errorf ps) = concat (map (piece_string q) ps)"
| "piece_string q (Lit s) = s"
| "piece_string q (Str s) = s"
| "piece_string q (Quoted s) = goQuote q s"
| "piece_string q (Cause err) = Error q err"

subsection \<open>Hashes, objects and capabilities\<close>

text \<open>
  Modelled from the spec: the type \<^verbatim>\<open>core.Hash\<close>, its zero value and its method
  \<^verbatim>\<open>String\<close> are declared in the package core, which is not part of the file. The spec
  (section 3) has a Hash be a binary identifier of 20 bytes, written as 40 lower-case
  hexadecimal characters, with the all-zero value for "absent". The 20 bytes are the
  160 bits of a word, the first byte the most significant.
\<close>

type_synonym Hash = "160 word"

definition ZeroHash :: Hash where
  "ZeroHash = 0"

definition String :: "Hash \<Rightarrow> string" where
  "String h = hexpad 40 (unat h)"

text \<open>
  Modelled from the spec: \<^verbatim>\<open>core.ObjectType\<close>, \<^verbatim>\<open>core.Object\<close>,
  \<^verbatim>\<open>memory.NewObject\<close> and \<^verbatim>\<open>core.NewObjectSliceIter\<close> are declared in the packages
  core and memory. The spec (section 3) has an Object be the triple of a type tag (one
  of commit, tree, blob, tag), a declared size and the content bytes, and an iteration
  be a finite sequence of objects.
\<close>

datatype ObjectType = CommitObject | TreeObject | BlobObject | TagObject

record Object =
  obj_type :: ObjectType
  obj_size :: int
  obj_content :: string

definition NewObject :: "ObjectType \<Rightarrow> int \<Rightarrow> string \<Rightarrow> Object" where
  "NewObject typ sz cont = \<lparr>obj_type = typ, obj_size = sz, obj_content = cont\<rparr>"

record ObjectSliceIter =
  series :: "Object list"

definition NewObjectSliceIter :: "Object list \<Rightarrow> ObjectSliceIter" where
  "NewObjectSliceIter objects = \<lparr>series = objects\<rparr>"

text \<open>
  Modelled from the spec: \<^verbatim>\<open>common.Capabilities\<close> is declared in the package
  clients/common. The spec (section 3) has a capability set be a mapping from a
  capability name to an ordered list of string values, which answers whether it
  supports a name and gives the values of a name (section 6). \<open>Set\<close> replaces the
  values of a name. \<open>Get\<close> gives nil for a name that is absent; \<open>Values\<close> of nil
  is never read by Head, which tests \<open>Supports\<close> first.
\<close>

type_synonym Capabilities = "string \<rightharpoonup> string list"

definition NewCapabilities :: Capabilities where
  "NewCapabilities = Map.empty"

definition Capabilities_Set :: "Capabilities \<Rightarrow> string \<Rightarrow> string list \<Rightarrow> Capabilities" where
  "Capabilities_Set c capability vals = c(capability \<mapsto> vals)"

definition Capabilities_Supports :: "Capabilities \<Rightarrow> string \<Rightarrow> bool" where
  "Capabilities_Supports c capability = (c capability \<noteq> None)"

definition Capabilities_Get :: "Capabilities \<Rightarrow> string \<Rightarrow> string list option" where
  "Capabilities_Get c capability = c capability"

definition Values :: "string list option \<Rightarrow> string list" where
  "Values capability = (case capability of None \<Rightarrow> [] | Some vals \<Rightarrow> vals)"

subsection \<open>The filesystem\<close>

text \<open>
  The interface \<^verbatim>\<open>fs.FS\<close> is the package's view of the disk. A file that has been
  opened gives its bytes to \<^verbatim>\<open>ioutil.ReadAll\<close>, possibly with an error, and answers
  \<^verbatim>\<open>Close\<close>. \<open>Stat\<close> gives only its error, since the file information is never read.
  \<open>ScanRefs\<close> stands for the walk of the directory tree below \<^verbatim>\<open>refs\<close> by
  \<^verbatim>\<open>addRefsFromRefDir\<close> (see there): the references it stores, in order, and the
  error that stopped it, if any.
\<close>

record File =
  fdata :: string
  freadErr :: "error option"
  fcloseErr :: "error option"

definition ReadAll :: "File \<Rightarrow> string \<times> error option" where
  "ReadAll f = (fdata f, freadErr f)"

definition Close :: "File \<Rightarrow> error option" where
  "Close f = fcloseErr f"

record FS =
  Stat :: "string \<Rightarrow> error option"
  Open :: "string \<Rightarrow> error + File"
  Join :: "string list \<Rightarrow> string"
  ScanRefs :: "string \<Rightarrow> (string \<times> Hash) list \<times> error option"

subsection \<open>Package gitdir\<close>

definition symRefPrefix :: string where
  \<comment> \<open>Modelled from the spec: the constant is declared in another file of the package;
      the spec (section 4.1) has DescribeCapabilities strip the prefix \<^verbatim>\<open>ref: \<close>.\<close>
  "symRefPrefix = ''ref: ''"

record GitDir =
  fs :: FS
  path :: string
  refs :: "string \<rightharpoonup> Hash"

definition GitDir_New :: "FS \<Rightarrow> string \<Rightarrow> error + GitDir" where
  "GitDir_New fsys p =
     (let d = \<lparr>fs = fsys, path = p, refs = Map.empty\<rparr> in
      case Stat fsys p of
        Some err \<Rightarrow> if IsNotExist err then Inl ErrNotFound else Inl err
      | None \<Rightarrow> Inr d)"

text \<open>
  Modelled from the spec: the method \<^verbatim>\<open>addRefsFromRefDir\<close> is declared in another file
  of the package. The spec (section 4.1, EnumerateReferences) has it scan the tree of
  loose references through the directory listing of the filesystem, resolve the content
  of every reference file to a Hash, and fail as a whole on a reference file that
  cannot be read. It stores every reference it finds in the field \<open>refs\<close> of the
  handle (section 5), a later one over an earlier one of the same name.
\<close>

definition addRefsFromRefDir :: "GitDir \<Rightarrow> error option \<times> GitDir" where
  "addRefsFromRefDir d =
     (case ScanRefs (fs d) (path d) of
        (found, err) \<Rightarrow>
          (err, d\<lparr>refs := foldl (\<lambda>m (name, h). m(name \<mapsto> h)) (refs d) found\<rparr>))"

definition Refs :: "GitDir \<Rightarrow> ((string \<rightharpoonup> Hash) \<times> error option) \<times> GitDir" where
  \<comment> \<open>The nil map of the failure reads as the empty map.\<close>
  "Refs d =
     (let d1 = d\<lparr>refs := Map.empty\<rparr> in
      case addRefsFromRefDir d1 of
        (Some err, d2) \<Rightarrow> ((Map.empty, Some err), d2)
      | (None, d2) \<Rightarrow> ((refs d2, None), d2))"

definition addSymRefCapability :: "GitDir \<Rightarrow> Capabilities \<Rightarrow> Capabilities \<times> error option" where
  \<comment> \<open>The result \<open>err\<close> is named, so the deferred function replaces a nil \<open>err\<close> by
      the error of \<open>Close\<close>, and leaves any other \<open>err\<close>.\<close>
  "addSymRefCapability d cap =
     (case Open (fs d) (Join (fs d) [path d, ''HEAD'']) of
        Inl err \<Rightarrow> (cap, Some err)
      | Inr f \<Rightarrow>
          (let errClose = Close f in
           case ReadAll f of
             (b, Some err) \<Rightarrow> (cap, Some err)
           | (b, None) \<Rightarrow>
               (let data = TrimSpace b;
                    c = ''symref'';
                    ref = TrimPrefix data symRefPrefix;
                    cap' = Capabilities_Set cap c [''HEAD:'' @ ref]
                in (cap', errClose))))"

definition Capabilities :: "GitDir \<Rightarrow> Capabilities \<times> error option" where
  "Capabilities d = (let c = NewCapabilities in addSymRefCapability d c)"

definition Objectfile :: "GitDir \<Rightarrow> Hash \<Rightarrow> (FS option \<times> string \<times> error option) outcome" where
  \<comment> \<open>A slice expression \<^verbatim>\<open>hash[lo:hi]\<close> panics when \<open>hi\<close> is beyond the length.\<close>
  "Objectfile d h =
     (let hash = String h in
      if length hash < 40 then Panic SliceBounds
      else
        (let objFile = Join (fs d) [path d, ''objects'', take (2 - 0) (drop 0 hash),
                                    take (40 - 2) (drop 2 hash)] in
         case Stat (fs d) objFile of
           Some err \<Rightarrow>
             if IsNotExist err then Return (None, [], Some ErrNotFound)
             else Return (None, [], Some err)
         | None \<Rightarrow> Return (Some (fs d), objFile, None)))"

subsection \<open>Package seekable2: reading a loose object\<close>

text \<open>
  The package \<^verbatim>\<open>compress/zlib\<close> of the Go library is a parameter of the model:
  \<open>NewReader\<close> gives, for a file, the pair that \<^verbatim>\<open>zlib.NewReader\<close> returns. A reader
  that is not nil delivers \<open>zout\<close> to \<^verbatim>\<open>io.Copy\<close> and then ends its stream with
  \<open>zerr\<close> (\<open>None\<close> at a clean end of the stream), and answers \<^verbatim>\<open>Close\<close> with
  \<open>zcloseErr\<close>. The reader of the pair is nil (\<open>None\<close>) whenever zlib reports an
  error: reading from it or closing it dereferences nil.
\<close>

record ZReader =
  zout :: string
  zerr :: "error option"
  zcloseErr :: "error option"

type_synonym zlib = "File \<Rightarrow> ZReader option \<times> error option"

definition io_Copy :: "string \<Rightarrow> ZReader \<Rightarrow> string \<times> error option" where
  \<comment> \<open>\<^verbatim>\<open>io.Copy(w, zr)\<close> into a buffer in memory, which holds \<open>w\<close> and never fails.\<close>
  "io_Copy w zr = (w @ zout zr, zerr zr)"

definition ZReader_Close :: "ZReader \<Rightarrow> error option" where
  "ZReader_Close zr = zcloseErr zr"

definition inflate_copy :: "ZReader option \<Rightarrow> string \<Rightarrow> (string \<times> error option) outcome" where
  \<comment> \<open>inflate from its \<^verbatim>\<open>defer\<close> on: the copy, then the deferred function, which
      replaces a nil \<open>err\<close> by the error of \<open>Close\<close>.\<close>
  "inflate_copy zr w =
     (case zr of
        None \<Rightarrow> Panic NilDereference
      | Some z \<Rightarrow>
          (case io_Copy w z of
             (w', err) \<Rightarrow>
               (let closeErr = ZReader_Close z in
                Return (w', if err = None then closeErr else err))))"

definition inflate :: "zlib \<Rightarrow> string \<Rightarrow> File \<Rightarrow> (string \<times> error option) outcome" where
  \<comment> \<open>The writer is the buffer that holds \<open>w\<close>; the result is what the buffer holds
      afterwards, and \<open>err\<close>.\<close>
  "inflate NewReader w r =
     (case NewReader r of
        (zr, Some err) \<Rightarrow>
          if err \<noteq> ErrHeader then Return (w, Some (Errorf [Lit ''zlib reading error: '', Cause err]))
          else inflate_copy zr w
      | (zr, None) \<Rightarrow> inflate_copy zr w)"

definition readZip :: "zlib \<Rightarrow> File \<Rightarrow> (string \<times> error option) outcome" where
  "readZip NewReader r = inflate NewReader [] r"

definition readObject :: "zlib \<Rightarrow> File \<Rightarrow> (Object option \<times> error option) outcome" where
  \<comment> \<open>\<^verbatim>\<open>len(cont)\<close> is an int that is not negative, so \<^verbatim>\<open>int64(len(cont))\<close> is the
      length itself.\<close>
  "readObject NewReader r =
     (case readZip NewReader r of
        Panic p \<Rightarrow> Panic p
      | Return (cont, Some err) \<Rightarrow> Return (None, Some err)
      | Return (cont, None) \<Rightarrow>
          Return (Some (NewObject CommitObject (int (length cont)) cont), None))"

subsection \<open>Package seekable2: the object storage\<close>

record ObjectStorage =
  dir :: GitDir

definition ObjectStorage_New :: "FS \<Rightarrow> string \<Rightarrow> error + ObjectStorage" where
  "ObjectStorage_New fsys p =
     (case GitDir_New fsys p of
        Inl err \<Rightarrow> Inl err
      | Inr d \<Rightarrow> Inr \<lparr>dir = d\<rparr>)"

definition ObjectStorage_Set ::
  "ObjectStorage \<Rightarrow> Object \<Rightarrow> (Hash \<times> error option) \<times> ObjectStorage" where
  "ObjectStorage_Set s obj = ((ZeroHash, Some (Errorf [Lit ''not implemented yet''])), s)"

definition ObjectStorage_Get ::
  "zlib \<Rightarrow> ObjectStorage \<Rightarrow> Hash \<Rightarrow> (Object option \<times> error option) outcome" where
  \<comment> \<open>Every error is thrown by \<^verbatim>\<open>panic(err)\<close>; the \<^verbatim>\<open>return nil, err\<close> behind it is
      never reached. The results are not named, so the deferred \<^verbatim>\<open>f.Close()\<close> cannot
      change them.\<close>
  "ObjectStorage_Get NewReader s h =
     (case Objectfile (dir s) h of
        Panic p \<Rightarrow> Panic p
      | Return (fsys, p, Some err) \<Rightarrow> Panic (PanicError err)
      | Return (None, p, None) \<Rightarrow> Panic NilDereference
      | Return (Some fsys, p, None) \<Rightarrow>
          (case Open fsys p of
             Inl err \<Rightarrow> Panic (PanicError err)
           | Inr f \<Rightarrow>
               (case readObject NewReader f of
                  Panic q \<Rightarrow> Panic q
                | Return (commit, Some err) \<Rightarrow> Panic (PanicError err)
                | Return (commit, None) \<Rightarrow> Return (commit, None))))"

definition Iter :: "ObjectStorage \<Rightarrow> ObjectType \<Rightarrow> (ObjectSliceIter \<times> error option) \<times> ObjectStorage" where
  "Iter s t = (let objects = [] in ((NewObjectSliceIter objects, None), s))"

definition headErrPrefix :: string where
  "headErrPrefix = ''cannot get HEAD reference:''"

definition symrefCapapability :: string where
  "symrefCapapability = ''symref''"

definition headRefPrefix :: string where
  "headRefPrefix = ''HEAD:''"

text \<open>The loop of Head over the values of the capability, from the value of \<open>headRef\<close> so far.\<close>

fun scanHeadRef :: "string \<Rightarrow> string list \<Rightarrow> string" where
  "scanHeadRef headRef [] = headRef"
| "scanHeadRef headRef (ref # rest) =
     scanHeadRef (if HasPrefix ref headRefPrefix then TrimPrefix ref headRefPrefix else headRef) rest"

definition Head_from :: "Capabilities \<Rightarrow> ObjectStorage \<Rightarrow> (Hash \<times> error option) \<times> ObjectStorage" where
  \<comment> \<open>Head once \<^verbatim>\<open>s.dir.Capabilities()\<close> has returned \<open>cap\<close> and no error.\<close>
  "Head_from cap s =
     (if \<not> Capabilities_Supports cap symrefCapapability then
        ((ZeroHash, Some (Errorf [Str headErrPrefix, Lit '' symref capability not supported''])), s)
      else
        (let symrefs = Capabilities_Get cap symrefCapapability;
             headRef = scanHeadRef [] (Values symrefs)
         in
         if headRef = [] then
           ((ZeroHash, Some (Errorf [Str headErrPrefix, Lit '' HEAD reference not found''])), s)
         else
           (case Refs (dir s) of
              ((rs, Some err), d') \<Rightarrow>
                ((ZeroHash, Some (Errorf [Str headErrPrefix, Lit '' '', Cause err])), s\<lparr>dir := d'\<rparr>)
            | ((rs, None), d') \<Rightarrow>
                (case rs headRef of
                   None \<Rightarrow>
                     ((ZeroHash,
                       Some (Errorf [Str headErrPrefix, Lit '' reference '', Quoted headRef,
                                     Lit '' not found''])),
                      s\<lparr>dir := d'\<rparr>)
                 | Some head \<Rightarrow> ((head, None), s\<lparr>dir := d'\<rparr>)))))"

definition Head :: "ObjectStorage \<Rightarrow> (Hash \<times> error option) \<times> ObjectStorage" where
  "Head s =
     (case Capabilities (dir s) of
        (cap, Some err) \<Rightarrow> ((ZeroHash, Some (Errorf [Str headErrPrefix, Lit '' '', Cause err])), s)
      | (cap, None) \<Rightarrow> Head_from cap s)"

subsection \<open>The shard path of the spec\<close>

text \<open>
  The spec (sections 3 and 4.1) names the path of a loose object: below the root,
  the directory \<^verbatim>\<open>objects\<close>, the first 2 hexadecimal characters of the hash as the
  shard directory, and the remaining 38 as the file name.
\<close>

definition shardPath :: "GitDir \<Rightarrow> Hash \<Rightarrow> string" where
  "shardPath d h = Join (fs d) [path d, ''objects'', take 2 (String h), drop 2 (String h)]"

subsection \<open>An example repository\<close>

text \<open>
  The repository of the round trip of the spec (section 8), at \<^verbatim>\<open>/repo/.git\<close>: the
  file HEAD with a given content, the reference \<^verbatim>\<open>refs/heads/main\<close> at the hash
  \<^verbatim>\<open>aaaa...\<close>, and the loose object of that hash, which holds the zlib compression
  of \<^verbatim>\<open>hello\<close>. Two more loose objects serve the failures: the object \<^verbatim>\<open>bbbb...\<close>
  holds the five bytes \<^verbatim>\<open>hello\<close> as they are, and the shard of \<^verbatim>\<open>cccc...\<close> cannot be
  read. Every other path does not exist.
\<close>

fun slashJoin :: "string list \<Rightarrow> string" where
  "slashJoin [] = []"
| "slashJoin [x] = x"
| "slashJoin (x # y # ys) = x @ ''/'' @ slashJoin (y # ys)"

definition hashA :: Hash where
  "hashA = 0xaaaaaaaaaaaaaaaaaaaaaaaaaaaaaaaaaaaaaaaa"

definition hashB :: Hash where
  "hashB = 0xbbbbbbbbbbbbbbbbbbbbbbbbbbbbbbbbbbbbbbbb"

definition hashC :: Hash where
  "hashC = 0xcccccccccccccccccccccccccccccccccccccccc"

definition hashD :: Hash where
  "hashD = 0xdddddddddddddddddddddddddddddddddddddddd"

definition pathA :: string where
  "pathA = ''/repo/.git/objects/aa/aaaaaaaaaaaaaaaaaaaaaaaaaaaaaaaaaaaaaa''"

definition pathB :: string where
  "pathB = ''/repo/.git/objects/bb/bbbbbbbbbbbbbbbbbbbbbbbbbbbbbbbbbbbbbb''"

definition pathC :: string where
  "pathC = ''/repo/.git/objects/cc/cccccccccccccccccccccccccccccccccccccc''"

definition helloZ :: string where
  \<comment> \<open>The zlib compression of \<^verbatim>\<open>hello\<close>.\<close>
  "helloZ = [CHR 0x78, CHR 0x9C, CHR 0xCB, CHR 0x48, CHR 0xCD, CHR 0xC9, CHR 0xC9, CHR 0x07,
             CHR 0x00, CHR 0x06, CHR 0x2C, CHR 0x02, CHR 0x15]"

definition plainFile :: "string \<Rightarrow> File" where
  "plainFile bytes = \<lparr>fdata = bytes, freadErr = None, fcloseErr = None\<rparr>"

definition noSuchFile :: "string \<Rightarrow> error" where
  "noSuchFile p = ErrNotExist (p @ '': no such file or directory'')"

definition exampleFS :: "string \<Rightarrow> FS" where
  "exampleFS head =
     \<lparr>Stat = (\<lambda>p. if p \<in> set [''/repo/.git'', ''/repo/.git/HEAD'', pathA, pathB] then None
                   else if p = pathC then Some (IOError (p @ '': permission denied''))
                   else Some (noSuchFile p)),
      Open = (\<lambda>p. if p = ''/repo/.git/HEAD'' then Inr (plainFile head)
                   else if p = pathA then Inr (plainFile helloZ)
                   else if p = pathB then Inr (plainFile ''hello'')
                   else Inl (noSuchFile p)),
      Join = slashJoin,
      ScanRefs = (\<lambda>root. if root = ''/repo/.git'' then ([(''refs/heads/main'', hashA)], None)
                          else ([], Some (noSuchFile root)))\<rparr>"

definition exampleStorage :: "string \<Rightarrow> ObjectStorage" where
  "exampleStorage head = \<lparr>dir = \<lparr>fs = exampleFS head, path = ''/repo/.git'', refs = Map.empty\<rparr>\<rparr>"

definition headMain :: string where
  "headMain = ''ref: refs/heads/main'' @ [CHR 0x0A]"

definition headDev :: string where
  "headDev = ''ref: refs/heads/dev'' @ [CHR 0x0A]"

definition headNEL :: string where
  \<comment> \<open>The content ends with the character U+0085 (next line) and a line feed.\<close>
  "headNEL = ''ref: refs/heads/main'' @ [CHR 0xC2, CHR 0x85, CHR 0x0A]"

text \<open>
  Three variants of the example, each with HEAD at \<^verbatim>\<open>ref: refs/heads/main\<close>. In the
  first, the scan of the references stores \<^verbatim>\<open>refs/heads/main\<close> at the hash
  \<^verbatim>\<open>aaaa...\<close> and then fails on another reference file, which cannot be read. In the
  second, the file HEAD is read in full, but closing it fails. The third is a directory
  with no file HEAD at all.
\<close>

definition brokenRefError :: error where
  "brokenRefError = IOError ''open /repo/.git/refs/heads/broken: permission denied''"

definition brokenRefsStorage :: ObjectStorage where
  "brokenRefsStorage =
     \<lparr>dir = \<lparr>fs = (exampleFS headMain)
                    \<lparr>ScanRefs := (\<lambda>root. ([(''refs/heads/main'', hashA)], Some brokenRefError))\<rparr>,
             path = ''/repo/.git'', refs = Map.empty\<rparr>\<rparr>"

definition closeError :: error where
  "closeError = IOError ''close /repo/.git/HEAD: input/output error''"

definition closeFailsStorage :: ObjectStorage where
  "closeFailsStorage =
     \<lparr>dir = \<lparr>fs = (exampleFS headMain)
                    \<lparr>Open := (\<lambda>p. if p = ''/repo/.git/HEAD''
                                  then Inr \<lparr>fdata = headMain, freadErr = None,
                                            fcloseErr = Some closeError\<rparr>
                                  else Open (exampleFS headMain) p)\<rparr>,
             path = ''/repo/.git'', refs = Map.empty\<rparr>\<rparr>"


text \<open>
  The answers of \<^verbatim>\<open>zlib.NewReader\<close> in the example. It reads the two bytes of the
  header and checks them as RFC 1950 has it (the compression method is 8, and the two
  bytes as a number are a multiple of 31); a header that fails the check gives
  \<^verbatim>\<open>zlib.ErrHeader\<close>, and every error comes with a nil reader. Of the streams with a
  good header, only the compression of \<^verbatim>\<open>hello\<close> is in the example.
\<close>

definition zlibHeaderOK :: "string \<Rightarrow> bool" where
  "zlibHeaderOK bytes =
     (case bytes of
        b0 # b1 # rest \<Rightarrow>
          (of_char b0 :: nat) mod 16 = 8 \<and> ((of_char b0 :: nat) * 256 + of_char b1) mod 31 = 0
      | _ \<Rightarrow> False)"

definition exampleZlib :: zlib where
  "exampleZlib r =
     (if length (fdata r) < 2 then (None, Some (IOError ''unexpected EOF''))
      else if \<not> zlibHeaderOK (fdata r) then (None, Some ErrHeader)
      else if fdata r = helloZ then (Some \<lparr>zout = ''hello'', zerr = None, zcloseErr = None\<rparr>, None)
      else (Some \<lparr>zout = [], zerr = Some (IOError ''flate: corrupt input''),
                  zcloseErr = Some (IOError ''flate: corrupt input'')\<rparr>, None))"

subsection \<open>The values of the capability that name HEAD\<close>



section \<open>Properties\<close>

lemma hexpad_length: "length (hexpad k n) = k"
  by (induction k arbitrary: n) simp_all


subsection \<open>Strings and hashes\<close>

lemma hexpad_numeral:
  "hexpad (numeral k) n = hexpad (pred_numeral k) (n div 16) @ [hexdigit (n mod 16)]"
  by (simp add: numeral_eq_Suc[of k])

lemma String_length: "length (String h) = 40"
  by (simp add: String_def hexpad_length)

lemma String_hashA: "String hashA = ''aaaaaaaaaaaaaaaaaaaaaaaaaaaaaaaaaaaaaaaa''"
  by (simp add: String_def hashA_def hexpad_numeral hexdigit_def)

lemma String_hashB: "String hashB = ''bbbbbbbbbbbbbbbbbbbbbbbbbbbbbbbbbbbbbbbb''"
  by (simp add: String_def hashB_def hexpad_numeral hexdigit_def)

lemma String_hashC: "String hashC = ''cccccccccccccccccccccccccccccccccccccccc''"
  by (simp add: String_def hashC_def hexpad_numeral hexdigit_def)

lemma String_hashD: "String hashD = ''dddddddddddddddddddddddddddddddddddddddd''"
  by (simp add: String_def hashD_def hexpad_numeral hexdigit_def)

lemma HasPrefix_append: "HasPrefix (pre @ s) pre"
  by (simp add: HasPrefix_def)

lemma TrimPrefix_append: "TrimPrefix (pre @ s) pre = s"
  by (simp add: TrimPrefix_def HasPrefix_def)

subsection \<open>The example repository\<close>

lemma Refs_example:
  "Refs (dir (exampleStorage c)) =
     (([''refs/heads/main'' \<mapsto> hashA], None),
      (dir (exampleStorage c))\<lparr>refs := [''refs/heads/main'' \<mapsto> hashA]\<rparr>)"
  by (simp add: Refs_def addRefsFromRefDir_def exampleStorage_def exampleFS_def)

lemma Open_HEAD_example:
  "Open (fs (dir (exampleStorage c)))
     (Join (fs (dir (exampleStorage c))) [path (dir (exampleStorage c)), ''HEAD'']) =
   Inr (plainFile c)"
  by (simp add: exampleStorage_def exampleFS_def)

lemma ReadAll_plainFile: "ReadAll (plainFile c) = (c, None)"
  by (simp add: ReadAll_def plainFile_def)

lemma Close_plainFile: "Close (plainFile c) = None"
  by (simp add: Close_def plainFile_def)

subsection \<open>Head: from the file HEAD to a hash\<close>


text \<open>
  When HEAD can be opened and read, Capabilities holds the single value
  \<^verbatim>\<open>HEAD:\<close> followed by the trimmed content of HEAD without the prefix \<^verbatim>\<open>ref: \<close>, and
  its error is the error of closing the file.
\<close>

lemma Capabilities_of_HEAD:
  assumes "Open (fs d) (Join (fs d) [path d, ''HEAD'']) = Inr f"
      and "ReadAll f = (b, None)"
  shows "Capabilities d =
           (Capabilities_Set NewCapabilities ''symref''
              [''HEAD:'' @ TrimPrefix (TrimSpace b) symRefPrefix], Close f)"
  using assms by (simp add: Capabilities_def addSymRefCapability_def Let_def)

lemma Head_from_single:
  "Head_from (Capabilities_Set NewCapabilities ''symref'' [''HEAD:'' @ name]) s =
     (if name = [] then
        ((ZeroHash, Some (Errorf [Str headErrPrefix, Lit '' HEAD reference not found''])), s)
      else
        (case Refs (dir s) of
           ((rs, Some err), d') \<Rightarrow>
             ((ZeroHash, Some (Errorf [Str headErrPrefix, Lit '' '', Cause err])), s\<lparr>dir := d'\<rparr>)
         | ((rs, None), d') \<Rightarrow>
             (case rs name of
                None \<Rightarrow>
                  ((ZeroHash,
                    Some (Errorf [Str headErrPrefix, Lit '' reference '', Quoted name,
                                  Lit '' not found''])),
                   s\<lparr>dir := d'\<rparr>)
              | Some head \<Rightarrow> ((head, None), s\<lparr>dir := d'\<rparr>))))"
  unfolding Head_from_def
  by (simp add: Capabilities_Set_def Capabilities_Supports_def Capabilities_Get_def
      symrefCapapability_def Values_def Let_def HasPrefix_def TrimPrefix_def headRefPrefix_def
      split: prod.splits option.splits)

lemma Head_of_HEAD:
  assumes "Open (fs (dir s)) (Join (fs (dir s)) [path (dir s), ''HEAD'']) = Inr f"
      and "ReadAll f = (b, None)"
      and "Close f = None"
  shows "Head s =
           Head_from (Capabilities_Set NewCapabilities ''symref''
                        [''HEAD:'' @ TrimPrefix (TrimSpace b) symRefPrefix]) s"
  using Capabilities_of_HEAD [OF assms(1) assms(2)] assms(3)
  by (simp add: Head_def)

text \<open>
  Claim C1, as amended. In every repository whose file HEAD is opened, read and closed
  without error and reads, once the white space around it is trimmed, as
  \<^verbatim>\<open>ref: refs/heads/main\<close>, and in which Refs scans the references without error and
  has \<^verbatim>\<open>refs/heads/main\<close> at the hash \<open>H\<close>, Head returns \<open>H\<close> and no error:
  the value \<^verbatim>\<open>HEAD:refs/heads/main\<close> of the capability symref names the reference, and
  the mapping gives its hash. The handle keeps the mapping of that scan.
\<close>

theorem Head_returns_hash_of_main:
  assumes "Open (fs (dir s)) (Join (fs (dir s)) [path (dir s), ''HEAD'']) = Inr f"
      and "ReadAll f = (b, None)"
      and "Close f = None"
      and "TrimSpace b = ''ref: refs/heads/main''"
      and "Refs (dir s) = ((rs, None), d')"
      and "rs ''refs/heads/main'' = Some H"
  shows "Head s = ((H, None), s\<lparr>dir := d'\<rparr>)"
proof -
  have name: "TrimPrefix (TrimSpace b) symRefPrefix = ''refs/heads/main''"
    using assms(4) by (simp add: TrimPrefix_def HasPrefix_def symRefPrefix_def)
  have "Head s =
          Head_from (Capabilities_Set NewCapabilities ''symref''
                       [''HEAD:'' @ ''refs/heads/main'']) s"
    using Head_of_HEAD [OF assms(1) assms(2) assms(3)] by (simp only: name)
  then show ?thesis
    using assms(5) assms(6) by (simp only: Head_from_single) simp
qed

text \<open>
  The theorem at the example repository, with HEAD ending in a line feed, and with HEAD
  ending in the character U+0085 and a line feed, which \<open>TrimSpace\<close> removes as well.
\<close>

theorem Head_returns_hash_of_main_witness:
  "TrimSpace headMain = ''ref: refs/heads/main'' \<and>
   Head (exampleStorage headMain) =
     ((hashA, None),
      (exampleStorage headMain)
        \<lparr>dir := (dir (exampleStorage headMain))\<lparr>refs := [''refs/heads/main'' \<mapsto> hashA]\<rparr>\<rparr>) \<and>
   TrimSpace headNEL = ''ref: refs/heads/main'' \<and>
   Head (exampleStorage headNEL) =
     ((hashA, None),
      (exampleStorage headNEL)
        \<lparr>dir := (dir (exampleStorage headNEL))\<lparr>refs := [''refs/heads/main'' \<mapsto> hashA]\<rparr>\<rparr>)"
proof -
  have trim: "TrimSpace headMain = ''ref: refs/heads/main''"
    by (simp add: TrimSpace_def spaceEncodings_def HasPrefix_def headMain_def)
  have trimNEL: "TrimSpace headNEL = ''ref: refs/heads/main''"
    by (simp add: TrimSpace_def spaceEncodings_def HasPrefix_def headNEL_def)
  have look: "[''refs/heads/main'' \<mapsto> hashA] ''refs/heads/main'' = Some hashA"
    by simp
  show ?thesis
    using Head_returns_hash_of_main
            [OF Open_HEAD_example ReadAll_plainFile Close_plainFile trim Refs_example look]
          Head_returns_hash_of_main
            [OF Open_HEAD_example ReadAll_plainFile Close_plainFile trimNEL Refs_example look]
          trim trimNEL
    by simp
qed

text \<open>
  Claim C1 does not hold without the conditions on the scan and on closing HEAD. In the
  first variant of the example HEAD reads as \<^verbatim>\<open>ref: refs/heads/main\<close> and the scan has
  stored \<^verbatim>\<open>refs/heads/main\<close> at \<^verbatim>\<open>aaaa...\<close>, but it fails on another reference, and
  Head returns the zero hash and the error of the scan, wrapped. In the second variant
  the scan succeeds, but closing HEAD fails, and Head returns the zero hash and that
  error, wrapped.
\<close>

theorem Head_main_counterexample:
  "Open (fs (dir brokenRefsStorage))
     (Join (fs (dir brokenRefsStorage)) [path (dir brokenRefsStorage), ''HEAD'']) =
     Inr (plainFile headMain) \<and>
   TrimSpace (fst (ReadAll (plainFile headMain))) = ''ref: refs/heads/main'' \<and>
   ScanRefs (fs (dir brokenRefsStorage)) (path (dir brokenRefsStorage)) =
     ([(''refs/heads/main'', hashA)], Some brokenRefError) \<and>
   fst (Head brokenRefsStorage) =
     (ZeroHash, Some (Errorf [Str headErrPrefix, Lit '' '', Cause brokenRefError])) \<and>
   fst (Head brokenRefsStorage) \<noteq> (hashA, None) \<and>
   Open (fs (dir closeFailsStorage))
     (Join (fs (dir closeFailsStorage)) [path (dir closeFailsStorage), ''HEAD'']) =
     Inr \<lparr>fdata = headMain, freadErr = None, fcloseErr = Some closeError\<rparr> \<and>
   fst (fst (Refs (dir closeFailsStorage))) ''refs/heads/main'' = Some hashA \<and>
   snd (fst (Refs (dir closeFailsStorage))) = None \<and>
   fst (Head closeFailsStorage) =
     (ZeroHash, Some (Errorf [Str headErrPrefix, Lit '' '', Cause closeError])) \<and>
   fst (Head closeFailsStorage) \<noteq> (hashA, None)"
proof -
  have trim: "TrimSpace headMain = ''ref: refs/heads/main''"
    by (simp add: TrimSpace_def spaceEncodings_def HasPrefix_def headMain_def)
  have open_broken:
    "Open (fs (dir brokenRefsStorage))
       (Join (fs (dir brokenRefsStorage)) [path (dir brokenRefsStorage), ''HEAD'']) =
     Inr (plainFile headMain)"
    by (simp add: brokenRefsStorage_def exampleFS_def)
  have scan_broken:
    "ScanRefs (fs (dir brokenRefsStorage)) (path (dir brokenRefsStorage)) =
       ([(''refs/heads/main'', hashA)], Some brokenRefError)"
    by (simp add: brokenRefsStorage_def)
  have refs_broken:
    "Refs (dir brokenRefsStorage) =
       ((Map.empty, Some brokenRefError),
        (dir brokenRefsStorage)\<lparr>refs := [''refs/heads/main'' \<mapsto> hashA]\<rparr>)"
    by (simp add: Refs_def addRefsFromRefDir_def scan_broken)
  have head_broken:
    "fst (Head brokenRefsStorage) =
       (ZeroHash, Some (Errorf [Str headErrPrefix, Lit '' '', Cause brokenRefError]))"
    using refs_broken
    by (simp only: Head_of_HEAD [OF open_broken ReadAll_plainFile Close_plainFile]
          Head_from_single)
       (simp add: trim TrimPrefix_def HasPrefix_def symRefPrefix_def)
  have open_close:
    "Open (fs (dir closeFailsStorage))
       (Join (fs (dir closeFailsStorage)) [path (dir closeFailsStorage), ''HEAD'']) =
     Inr \<lparr>fdata = headMain, freadErr = None, fcloseErr = Some closeError\<rparr>"
    by (simp add: closeFailsStorage_def exampleFS_def)
  have refs_close: "fst (Refs (dir closeFailsStorage)) = ([''refs/heads/main'' \<mapsto> hashA], None)"
    by (simp add: Refs_def addRefsFromRefDir_def closeFailsStorage_def exampleFS_def)
  have "Capabilities (dir closeFailsStorage) =
          (Capabilities_Set NewCapabilities ''symref''
             [''HEAD:'' @ TrimPrefix (TrimSpace headMain) symRefPrefix], Some closeError)"
    using Capabilities_of_HEAD [OF open_close, of headMain]
    by (simp add: ReadAll_def Close_def)
  then have head_close:
    "fst (Head closeFailsStorage) =
       (ZeroHash, Some (Errorf [Str headErrPrefix, Lit '' '', Cause closeError]))"
    by (simp add: Head_def)
  show ?thesis
    using open_broken trim scan_broken head_broken open_close refs_close head_close
    by (simp add: ReadAll_plainFile)
qed

text \<open>A plain name is quoted as it is, whatever the escapes of the other strings.\<close>

lemma goQuote_plain:
  assumes "plainText s"
  shows "goQuote q s = [CHR 0x22] @ s @ [CHR 0x22]"
  using assms by (simp add: goQuote_def)

text \<open>
  Claim C5. In every repository whose file HEAD names a reference (HEAD is opened, read
  and closed without error, and its trimmed content without the prefix \<^verbatim>\<open>ref: \<close> is a
  name that is not empty) that is absent from the mapping returned by Refs, Head fails,
  with the zero hash: its error is
  \<^verbatim>\<open>fmt.Errorf("%s reference %q not found", headErrPrefix, headRef)\<close>. The message of
  that error is \<^verbatim>\<open>cannot get HEAD reference: reference\<close>, the name as \<^verbatim>\<open>%q\<close> writes
  it, and \<^verbatim>\<open>not found\<close>; for every plain name, that is the name itself between
  double quotes.
\<close>

theorem Head_reference_not_found:
  assumes "Open (fs (dir s)) (Join (fs (dir s)) [path (dir s), ''HEAD'']) = Inr f"
      and "ReadAll f = (b, None)"
      and "Close f = None"
      and "TrimPrefix (TrimSpace b) symRefPrefix = name"
      and "name \<noteq> []"
      and "Refs (dir s) = ((rs, None), d')"
      and "rs name = None"
  shows "Head s =
           ((ZeroHash,
             Some (Errorf [Str headErrPrefix, Lit '' reference '', Quoted name, Lit '' not found''])),
            s\<lparr>dir := d'\<rparr>) \<and>
         Error q (Errorf [Str headErrPrefix, Lit '' reference '', Quoted name, Lit '' not found'']) =
           ''cannot get HEAD reference: reference '' @ goQuote q name @ '' not found'' \<and>
         (plainText name \<longrightarrow>
            Error q (Errorf [Str headErrPrefix, Lit '' reference '', Quoted name,
                             Lit '' not found'']) =
              ''cannot get HEAD reference: reference '' @ [CHR 0x22] @ name @ [CHR 0x22] @
              '' not found'')"
proof -
  have "Head s = Head_from (Capabilities_Set NewCapabilities ''symref'' [''HEAD:'' @ name]) s"
    using Head_of_HEAD [OF assms(1) assms(2) assms(3)] by (simp only: assms(4))
  then have "Head s =
           ((ZeroHash,
             Some (Errorf [Str headErrPrefix, Lit '' reference '', Quoted name, Lit '' not found''])),
            s\<lparr>dir := d'\<rparr>)"
    using assms(5) assms(6) assms(7) by (simp only: Head_from_single) simp
  moreover have "Error q (Errorf [Str headErrPrefix, Lit '' reference '', Quoted name,
                                  Lit '' not found'']) =
           ''cannot get HEAD reference: reference '' @ goQuote q name @ '' not found''"
    by (simp add: headErrPrefix_def)
  ultimately show ?thesis
    by (simp add: goQuote_plain)
qed

theorem Head_reference_not_found_witness:
  "TrimPrefix (TrimSpace headDev) symRefPrefix = ''refs/heads/dev'' \<and>
   plainText ''refs/heads/dev'' \<and>
   Head (exampleStorage headDev) =
     ((ZeroHash,
       Some (Errorf [Str headErrPrefix, Lit '' reference '', Quoted ''refs/heads/dev'',
                     Lit '' not found''])),
      (exampleStorage headDev)
        \<lparr>dir := (dir (exampleStorage headDev))\<lparr>refs := [''refs/heads/main'' \<mapsto> hashA]\<rparr>\<rparr>) \<and>
   (\<forall>q. Error q (Errorf [Str headErrPrefix, Lit '' reference '', Quoted ''refs/heads/dev'',
                          Lit '' not found'']) =
          ''cannot get HEAD reference: reference '' @ [CHR 0x22] @ ''refs/heads/dev'' @
          [CHR 0x22] @ '' not found'')"
proof -
  have name: "TrimPrefix (TrimSpace headDev) symRefPrefix = ''refs/heads/dev''"
    by (simp add: TrimSpace_def spaceEncodings_def headDev_def TrimPrefix_def HasPrefix_def
        symRefPrefix_def)
  have nonempty: "''refs/heads/dev'' \<noteq> []"
    by simp
  have look: "[''refs/heads/main'' \<mapsto> hashA] ''refs/heads/dev'' = None"
    by simp
  have plain: "plainText ''refs/heads/dev''"
    by (simp add: plainText_def)
  have "\<And>q. Error q (Errorf [Str headErrPrefix, Lit '' reference '', Quoted ''refs/heads/dev'',
                              Lit '' not found'']) =
          ''cannot get HEAD reference: reference '' @ [CHR 0x22] @ ''refs/heads/dev'' @
          [CHR 0x22] @ '' not found''"
    using Head_reference_not_found
            [OF Open_HEAD_example ReadAll_plainFile Close_plainFile name nonempty Refs_example look]
          plain
    by blast
  then show ?thesis
    using Head_reference_not_found
            [OF Open_HEAD_example ReadAll_plainFile Close_plainFile name nonempty Refs_example look]
          name plain
    by simp
qed

subsection \<open>Head: the scan of the values of the capability\<close>





text \<open>
  The messages of the errors of Head. Only the error of the empty name, and an error of
  the scan whose own message is \<^verbatim>\<open>HEAD reference not found\<close>, give the message
  \<^verbatim>\<open>cannot get HEAD reference: HEAD reference not found\<close>.
\<close>

lemma message_not_found:
  "Error q (Errorf [Str headErrPrefix, Lit '' HEAD reference not found'']) =
     ''cannot get HEAD reference: HEAD reference not found''"
  by (simp add: headErrPrefix_def)








subsection \<open>Objectfile: the path of a loose object\<close>

text \<open>
  The hexadecimal form of a hash has 40 characters, so the two slice expressions of
  Objectfile are in range and Objectfile never panics.
\<close>

lemma Objectfile_shard:
  "Objectfile d h =
     Return (case Stat (fs d) (shardPath d h) of
               None \<Rightarrow> (Some (fs d), shardPath d h, None)
             | Some err \<Rightarrow> (None, [], Some (if IsNotExist err then ErrNotFound else err)))"
  by (simp add: Objectfile_def shardPath_def String_length Let_def split: option.splits)

lemma shardPath_example:
  "shardPath (dir (exampleStorage c)) hashA = pathA"
  "shardPath (dir (exampleStorage c)) hashB = pathB"
  "shardPath (dir (exampleStorage c)) hashC = pathC"
  "shardPath (dir (exampleStorage c)) hashD =
     ''/repo/.git/objects/dd/dddddddddddddddddddddddddddddddddddddd''"
  by (simp_all add: shardPath_def exampleStorage_def exampleFS_def String_hashA String_hashB
      String_hashC String_hashD pathA_def pathB_def pathC_def)

lemma Stat_example:
  "Stat (fs (dir (exampleStorage c))) pathA = None"
  "Stat (fs (dir (exampleStorage c))) pathB = None"
  "Stat (fs (dir (exampleStorage c))) pathC = Some (IOError (pathC @ '': permission denied''))"
  "Stat (fs (dir (exampleStorage c))) ''/repo/.git/objects/dd/dddddddddddddddddddddddddddddddddddddd'' =
     Some (noSuchFile ''/repo/.git/objects/dd/dddddddddddddddddddddddddddddddddddddd'')"
  by (simp_all add: exampleStorage_def exampleFS_def pathA_def pathB_def pathC_def)

lemma Open_example:
  "Open (fs (dir (exampleStorage c))) pathA = Inr (plainFile helloZ)"
  "Open (fs (dir (exampleStorage c))) pathB = Inr (plainFile ''hello'')"
  by (simp_all add: exampleStorage_def exampleFS_def pathA_def pathB_def)

text \<open>
  Claim C4. For every handle and every hash, whose hexadecimal form has 40 characters,
  Objectfile asks the filesystem for the state of exactly the shard path: the root,
  \<^verbatim>\<open>objects\<close>, the first 2 characters and the remaining 38, joined by the filesystem.
  It returns the filesystem and that path when the stat succeeds, and only then;
  \<open>ErrNotFound\<close> when the stat fails with an error on which \<^verbatim>\<open>os.IsNotExist\<close>
  holds; and the error of the stat itself otherwise.
\<close>

theorem Objectfile_shard_path:
  "length (take 2 (String h)) = 2 \<and> length (drop 2 (String h)) = 38 \<and>
   (Stat (fs d) (shardPath d h) = None \<longrightarrow>
      Objectfile d h = Return (Some (fs d), shardPath d h, None)) \<and>
   (\<forall>err. Stat (fs d) (shardPath d h) = Some err \<and> IsNotExist err \<longrightarrow>
      Objectfile d h = Return (None, [], Some ErrNotFound)) \<and>
   (\<forall>err. Stat (fs d) (shardPath d h) = Some err \<and> \<not> IsNotExist err \<longrightarrow>
      Objectfile d h = Return (None, [], Some err)) \<and>
   ((\<exists>fsys p. Objectfile d h = Return (Some fsys, p, None)) \<longleftrightarrow>
      Stat (fs d) (shardPath d h) = None)"
  by (auto simp add: Objectfile_shard String_length split: option.splits)

theorem Objectfile_shard_path_witness:
  "Objectfile (dir (exampleStorage headMain)) hashA =
     Return (Some (fs (dir (exampleStorage headMain))), pathA, None) \<and>
   Objectfile (dir (exampleStorage headMain)) hashD = Return (None, [], Some ErrNotFound) \<and>
   Objectfile (dir (exampleStorage headMain)) hashC =
     Return (None, [], Some (IOError (pathC @ '': permission denied'')))"
proof -
  have a: "Objectfile (dir (exampleStorage headMain)) hashA =
             Return (Some (fs (dir (exampleStorage headMain))), pathA, None)"
    using Objectfile_shard_path [of hashA "dir (exampleStorage headMain)"]
    by (simp add: shardPath_example Stat_example)
  have d: "Objectfile (dir (exampleStorage headMain)) hashD = Return (None, [], Some ErrNotFound)"
    using Objectfile_shard_path [of hashD "dir (exampleStorage headMain)"]
    by (simp add: shardPath_example Stat_example noSuchFile_def IsNotExist_def)
  have c: "Objectfile (dir (exampleStorage headMain)) hashC =
             Return (None, [], Some (IOError (pathC @ '': permission denied'')))"
    using Objectfile_shard_path [of hashC "dir (exampleStorage headMain)"]
    by (simp add: shardPath_example Stat_example IsNotExist_def)
  show ?thesis using a d c by simp
qed

subsection \<open>inflate: the decompression of a stream\<close>

text \<open>
  The three ways through inflate. An error of \<^verbatim>\<open>zlib.NewReader\<close> other than
  \<open>ErrHeader\<close> is returned at once, wrapped. With \<open>ErrHeader\<close>, or with no error,
  inflate goes on to the copy with the reader it was given. After a copy from a
  reader that is not nil, the error of \<open>Close\<close> is the result only when the copy had
  no error. A nil reader makes the copy panic.
\<close>

lemma inflate_copy_nil: "inflate_copy None w = Panic NilDereference"
  by (simp add: inflate_copy_def)

lemma inflate_copy_reader:
  "inflate_copy (Some z) w =
     Return (w @ zout z, case zerr z of None \<Rightarrow> zcloseErr z | Some err \<Rightarrow> Some err)"
  by (simp add: inflate_copy_def io_Copy_def ZReader_Close_def split: option.splits)

lemma inflate_open_error_fatal:
  assumes "NewReader r = (zr, Some err)" and "err \<noteq> ErrHeader"
  shows "inflate NewReader w r = Return (w, Some (Errorf [Lit ''zlib reading error: '', Cause err]))"
  using assms by (simp add: inflate_def)

lemma inflate_header_error_swallowed:
  assumes "NewReader r = (zr, Some ErrHeader)"
  shows "inflate NewReader w r = inflate_copy zr w"
  using assms by (simp add: inflate_def)

lemma inflate_opened:
  assumes "NewReader r = (zr, None)"
  shows "inflate NewReader w r = inflate_copy zr w"
  using assms by (simp add: inflate_def)

lemma inflate_close_error_composes:
  assumes "NewReader r = (Some z, None)"
  shows "inflate NewReader w r =
           Return (w @ zout z, case zerr z of None \<Rightarrow> zcloseErr z | Some err \<Rightarrow> Some err)"
  using assms by (simp add: inflate_def inflate_copy_reader)

lemma inflate_header_error_nil_reader:
  assumes "NewReader r = (None, Some ErrHeader)"
  shows "inflate NewReader w r = Panic NilDereference"
  using assms by (simp add: inflate_def inflate_copy_nil)

lemma exampleZlib_hello: "exampleZlib (plainFile ''hello'') = (None, Some ErrHeader)"
  by (simp add: exampleZlib_def plainFile_def zlibHeaderOK_def)

lemma exampleZlib_helloZ:
  "exampleZlib (plainFile helloZ) = (Some \<lparr>zout = ''hello'', zerr = None, zcloseErr = None\<rparr>, None)"
  by (simp add: exampleZlib_def plainFile_def zlibHeaderOK_def helloZ_def)

lemma inflate_example: "inflate exampleZlib [] (plainFile helloZ) = Return (''hello'', None)"
  by (simp add: inflate_def exampleZlib_helloZ inflate_copy_reader)

text \<open>
  Claim C3. The stream of the five bytes \<^verbatim>\<open>hello\<close> fails the header check of zlib:
  \<^verbatim>\<open>zlib.NewReader\<close> returns a nil reader and \<open>ErrHeader\<close>. inflate does not return
  that error; it goes on to \<^verbatim>\<open>io.Copy(w, zr)\<close> with the nil reader, and panics on the
  nil dereference instead of copying the stream. So does Get on the loose object that
  holds these bytes.
\<close>

theorem inflate_header_mismatch_panics:
  "exampleZlib (plainFile ''hello'') = (None, Some ErrHeader) \<and>
   inflate exampleZlib [] (plainFile ''hello'') = Panic NilDereference \<and>
   ObjectStorage_Get exampleZlib (exampleStorage headMain) hashB = Panic NilDereference"
proof -
  have open_B: "Open (fs (dir (exampleStorage headMain))) pathB = Inr (plainFile ''hello'')"
    by (rule Open_example)
  have "inflate exampleZlib [] (plainFile ''hello'') = Panic NilDereference"
    using exampleZlib_hello by (rule inflate_header_error_nil_reader)
  then show ?thesis
    by (simp add: exampleZlib_hello ObjectStorage_Get_def Objectfile_shard shardPath_example
        Stat_example open_B readObject_def readZip_def)
qed

subsection \<open>Get: reading a loose object\<close>

lemma Get_of_Objectfile_error:
  assumes "Objectfile (dir s) h = Return (fsys, p, Some err)"
  shows "ObjectStorage_Get NewReader s h = Panic (PanicError err)"
  using assms by (simp add: ObjectStorage_Get_def split: option.splits)

lemma Get_missing_file_panics:
  assumes "Stat (fs (dir s)) (shardPath (dir s) h) = Some err" and "IsNotExist err"
  shows "ObjectStorage_Get NewReader s h = Panic (PanicError ErrNotFound)"
  using assms by (simp add: ObjectStorage_Get_def Objectfile_shard)

text \<open>Get never returns an error: it returns an object, or it panics.\<close>

lemma Get_never_returns_error:
  "ObjectStorage_Get NewReader s h \<noteq> Return (obj, Some err)"
  by (simp add: ObjectStorage_Get_def split: outcome.splits prod.splits option.splits sum.splits)

text \<open>
  Claim C2. In the example repository no file exists for the hash \<^verbatim>\<open>dddd...\<close>: the
  stat of its shard path fails with an error on which \<^verbatim>\<open>os.IsNotExist\<close> holds, and
  Objectfile returns \<open>ErrNotFound\<close>. Get does not return that error: it panics
  with it.
\<close>

theorem Get_missing_object_panics:
  "Stat (fs (dir (exampleStorage headMain))) (shardPath (dir (exampleStorage headMain)) hashD) =
     Some (noSuchFile ''/repo/.git/objects/dd/dddddddddddddddddddddddddddddddddddddd'') \<and>
   Objectfile (dir (exampleStorage headMain)) hashD = Return (None, [], Some ErrNotFound) \<and>
   ObjectStorage_Get exampleZlib (exampleStorage headMain) hashD = Panic (PanicError ErrNotFound)"
proof -
  have st: "Stat (fs (dir (exampleStorage headMain))) (shardPath (dir (exampleStorage headMain)) hashD) =
     Some (noSuchFile ''/repo/.git/objects/dd/dddddddddddddddddddddddddddddddddddddd'')"
    by (simp add: shardPath_example Stat_example)
  have ne: "IsNotExist (noSuchFile ''/repo/.git/objects/dd/dddddddddddddddddddddddddddddddddddddd'')"
    by (simp add: noSuchFile_def IsNotExist_def)
  have "ObjectStorage_Get exampleZlib (exampleStorage headMain) hashD = Panic (PanicError ErrNotFound)"
    using st ne by (rule Get_missing_file_panics)
  moreover have "Objectfile (dir (exampleStorage headMain)) hashD = Return (None, [], Some ErrNotFound)"
    using ne by (simp add: Objectfile_shard st)
  ultimately show ?thesis using st by simp
qed

lemma Get_returns:
  assumes "Stat (fs (dir s)) (shardPath (dir s) h) = None"
      and "Open (fs (dir s)) (shardPath (dir s) h) = Inr f"
      and "inflate NewReader [] f = Return (cont, None)"
  shows "ObjectStorage_Get NewReader s h =
           Return (Some (NewObject CommitObject (int (length cont)) cont), None)"
  using assms
  by (simp add: ObjectStorage_Get_def Objectfile_shard readObject_def readZip_def)

lemma Get_returned_object:
  assumes "ObjectStorage_Get NewReader s h = Return (Some obj, err)"
  shows "\<exists>cont. obj = NewObject CommitObject (int (length cont)) cont"
  using assms
  by (auto simp add: ObjectStorage_Get_def readObject_def
      split: outcome.splits prod.splits option.splits sum.splits)

text \<open>
  Claim C6. For every hash whose loose-object file exists, can be opened, and
  decompresses to the bytes \<open>cont\<close> with no error, Get returns an object and no
  error; the content of the object is \<open>cont\<close>, and its declared size is the length
  of its content.
\<close>

theorem Get_size_is_content_length:
  assumes "Stat (fs (dir s)) (shardPath (dir s) h) = None"
      and "Open (fs (dir s)) (shardPath (dir s) h) = Inr f"
      and "inflate NewReader [] f = Return (cont, None)"
  shows "\<exists>obj. ObjectStorage_Get NewReader s h = Return (Some obj, None) \<and>
               obj_content obj = cont \<and>
               obj_size obj = int (length (obj_content obj))"
  using Get_returns [OF assms] by (simp add: NewObject_def)

theorem Get_size_is_content_length_witness:
  "inflate exampleZlib [] (plainFile helloZ) = Return (''hello'', None) \<and>
   (\<exists>obj. ObjectStorage_Get exampleZlib (exampleStorage headMain) hashA = Return (Some obj, None) \<and>
          obj_content obj = ''hello'' \<and>
          obj_size obj = int (length (obj_content obj)))"
proof -
  have st: "Stat (fs (dir (exampleStorage headMain))) (shardPath (dir (exampleStorage headMain)) hashA) = None"
    by (simp add: shardPath_example Stat_example)
  have op: "Open (fs (dir (exampleStorage headMain))) (shardPath (dir (exampleStorage headMain)) hashA) =
              Inr (plainFile helloZ)"
    by (simp add: shardPath_example Open_example)
  have inf: "inflate exampleZlib [] (plainFile helloZ) = Return (''hello'', None)"
    by (rule inflate_example)
  show ?thesis
    using Get_size_is_content_length [OF st op inf] inf by simp
qed

text \<open>
  Claim C7. Every object that Get returns has the type tag \<open>CommitObject\<close>,
  whatever the content of the loose-object file.
\<close>

theorem Get_type_is_commit:
  assumes "ObjectStorage_Get NewReader s h = Return (Some obj, err)"
  shows "obj_type obj = CommitObject"
  using Get_returned_object [OF assms] by (auto simp add: NewObject_def)

theorem Get_type_is_commit_witness:
  "ObjectStorage_Get exampleZlib (exampleStorage headMain) hashA =
     Return (Some \<lparr>obj_type = CommitObject, obj_size = 5, obj_content = ''hello''\<rparr>, None) \<and>
   obj_type \<lparr>obj_type = CommitObject, obj_size = 5, obj_content = ''hello''\<rparr> = CommitObject"
proof -
  have st: "Stat (fs (dir (exampleStorage headMain))) (shardPath (dir (exampleStorage headMain)) hashA) = None"
    by (simp add: shardPath_example Stat_example)
  have op: "Open (fs (dir (exampleStorage headMain))) (shardPath (dir (exampleStorage headMain)) hashA) =
              Inr (plainFile helloZ)"
    by (simp add: shardPath_example Open_example)
  have inf: "inflate exampleZlib [] (plainFile helloZ) = Return (''hello'', None)"
    by (rule inflate_example)
  have get: "ObjectStorage_Get exampleZlib (exampleStorage headMain) hashA =
     Return (Some \<lparr>obj_type = CommitObject, obj_size = 5, obj_content = ''hello''\<rparr>, None)"
    using Get_returns [OF st op inf] by (simp add: NewObject_def)
  show ?thesis
    using Get_type_is_commit [OF get] get by simp
qed

subsection \<open>Set and Iter\<close>

text \<open>
  Claim C8. For every object, Set returns the zero hash, which is all zero, and the
  error \<^verbatim>\<open>fmt.Errorf("not implemented yet")\<close>, and leaves the storage, with its handle
  and filesystem, as it was.
\<close>

theorem Set_not_implemented:
  "fst (ObjectStorage_Set s obj) = (ZeroHash, Some (Errorf [Lit ''not implemented yet''])) \<and>
   snd (ObjectStorage_Set s obj) = s \<and>
   ZeroHash = 0 \<and>
   Error q (Errorf [Lit ''not implemented yet'']) = ''not implemented yet''"
  by (simp add: ObjectStorage_Set_def ZeroHash_def)

text \<open>
  Claim C9. For every type of object, Iter returns an iteration over no object at
  all and a nil error, and leaves the storage as it was.
\<close>

theorem Iter_is_empty:
  "series (fst (fst (Iter s t))) = [] \<and> length (series (fst (fst (Iter s t)))) = 0 \<and>
   snd (fst (Iter s t)) = None \<and> snd (Iter s t) = s"
  by (simp add: Iter_def NewObjectSliceIter_def)

end
